theory Spec2Isabelle
  imports Main
begin

section \<open>Enumerations of aas.model and the token tables of the XML adapter\<close>

text \<open>
  Modelled from the spec: the enumerations ModelingKind, AssetKind, KeyType,
  IdentifierType and EntityType. They are declared in aas/model/base.py; their members
  are those that section 6 of the specification lists (2, 2, 5, 3 and 2 of them), under
  the names that the keys of the tables of aas/adapter/xml/xml_serialization.py (lines
  28 to 76) give the same members.
\<close>

datatype ModelingKind = ModelingKind_TEMPLATE | ModelingKind_INSTANCE

datatype AssetKind = AssetKind_TYPE | AssetKind_INSTANCE

text \<open>
  The enumeration KeyElements is declared in aas/model/base.py too, and the
  specification does not list its members. A member of KeyElements is its name: the
  key \<open>model.KeyElements.ASSET\<close> of the table is the name ASSET. Which names the
  class declares is not fixed here; a statement about the whole enumeration takes the
  set of the declared members as a parameter. Different names are different members
  (no name is an alias of another).
\<close>

type_synonym KeyElements = string

datatype KeyType =
    KeyType_CUSTOM | KeyType_IRDI | KeyType_IRI | KeyType_IDSHORT | KeyType_FRAGMENT_ID

datatype IdentifierType = IdentifierType_CUSTOM | IdentifierType_IRDI | IdentifierType_IRI

datatype EntityType = EntityType_CO_MANAGED_ENTITY | EntityType_SELF_MANAGED_ENTITY

text \<open>
  A dict literal is an association list in the order it is written. Every table below is
  one of the module-level dicts, entry for entry.
\<close>

definition MODELING_KIND :: "(ModelingKind \<times> string) list" where
  "MODELING_KIND =
    [(ModelingKind_TEMPLATE, ''Template''),
     (ModelingKind_INSTANCE, ''Instance'')]"

definition ASSET_KIND :: "(AssetKind \<times> string) list" where
  "ASSET_KIND =
    [(AssetKind_TYPE, ''Type''),
     (AssetKind_INSTANCE, ''Instance'')]"

definition KEY_ELEMENTS :: "(KeyElements \<times> string) list" where
  "KEY_ELEMENTS =
    [(''ASSET'', ''Asset''),
     (''ASSET_ADMINISTRATION_SHELL'', ''AssetAdministrationShell''),
     (''CONCEPT_DESCRIPTION'', ''ConceptDescription''),
     (''SUBMODEL'', ''Submodel''),
     (''ANNOTATED_RELATIONSHIP_ELEMENT'', ''AnnotatedRelationshipElement''),
     (''BASIC_EVENT'', ''BasicEvent''),
     (''BLOB'', ''Blob''),
     (''CAPABILITY'', ''Capability''),
     (''CONCEPT_DICTIONARY'', ''ConceptDictionary''),
     (''DATA_ELEMENT'', ''DataElement''),
     (''ENTITY'', ''Entity''),
     (''EVENT'', ''Event''),
     (''FILE'', ''File''),
     (''MULTI_LANGUAGE_PROPERTY'', ''MultiLanguageProperty''),
     (''OPERATION'', ''Operation''),
     (''PROPERTY'', ''Property''),
     (''RANGE'', ''Range''),
     (''REFERENCE_ELEMENT'', ''ReferenceElement''),
     (''RELATIONSHIP_ELEMENT'', ''RelationshipElement''),
     (''SUBMODEL_ELEMENT'', ''SubmodelElement''),
     (''SUBMODEL_ELEMENT_COLLECTION'', ''SubmodelElementCollection''),
     (''VIEW'', ''View''),
     (''GLOBAL_REFERENCE'', ''GlobalReference''),
     (''FRAGMENT_REFERENCE'', ''FragmentReference'')]"

definition KEY_TYPES :: "(KeyType \<times> string) list" where
  "KEY_TYPES =
    [(KeyType_CUSTOM, ''Custom''),
     (KeyType_IRDI, ''IRDI''),
     (KeyType_IRI, ''IRI''),
     (KeyType_IDSHORT, ''IdShort''),
     (KeyType_FRAGMENT_ID, ''FragmentId'')]"

definition IDENTIFIER_TYPES :: "(IdentifierType \<times> string) list" where
  "IDENTIFIER_TYPES =
    [(IdentifierType_CUSTOM, ''Custom''),
     (IdentifierType_IRDI, ''IRDI''),
     (IdentifierType_IRI, ''IRI'')]"

definition ENTITY_TYPES :: "(EntityType \<times> string) list" where
  "ENTITY_TYPES =
    [(EntityType_CO_MANAGED_ENTITY, ''CoManagedEntity''),
     (EntityType_SELF_MANAGED_ENTITY, ''SelfManagedEntity'')]"


section \<open>Python exceptions, values and name lookup\<close>

text \<open>An exception is its class name and its message.\<close>

datatype exn = Exn (exn_class: string) (exn_msg: string)

definition quoted :: "string \<Rightarrow> string" where
  "quoted s = CHR 0x27 # s @ [CHR 0x27]"

definition TypeError :: "string \<Rightarrow> exn" where
  "TypeError msg = Exn ''TypeError'' msg"

definition NameError :: "string \<Rightarrow> exn" where
  "NameError n = Exn ''NameError'' (''name '' @ quoted n @ '' is not defined'')"

definition KeyError :: "exn" where
  "KeyError = Exn ''KeyError'' []"

text \<open>Subscription \<open>d[k]\<close> of a dict: the value of the key, KeyError when it has none.\<close>

definition dict_getitem :: "('k \<times> 'v) list \<Rightarrow> 'k \<Rightarrow> exn + 'v" where
  "dict_getitem d k = (case map_of d k of None \<Rightarrow> Inl KeyError | Some v \<Rightarrow> Inr v)"

text \<open>
  Assignment \<open>d[k] = v\<close>: an existing key keeps its place and takes the new value,
  a new key goes to the end.
\<close>

definition dict_setitem :: "('k \<times> 'v) list \<Rightarrow> 'k \<Rightarrow> 'v \<Rightarrow> ('k \<times> 'v) list" where
  "dict_setitem d k v =
    (if k \<in> fst ` set d then map (\<lambda>(k', v'). if k' = k then (k', v) else (k', v')) d
     else d @ [(k, v)])"

text \<open>
  The values that the function stores in, or reads from, an element: None, a str, a
  dict with str keys (line 107), and a member of IdentifierType (line 112). None of
  them is callable.
\<close>

datatype pyval =
    PyNone
  | PyStr string
  | PyDict "(string \<times> pyval) list"
  | PyIdentifierType IdentifierType

definition type_name :: "pyval \<Rightarrow> string" where
  "type_name v =
    (case v of
       PyNone \<Rightarrow> ''NoneType''
     | PyStr _ \<Rightarrow> ''str''
     | PyDict _ \<Rightarrow> ''dict''
     | PyIdentifierType _ \<Rightarrow> ''IdentifierType'')"


section \<open>xml.etree.ElementTree.Element\<close>

text \<open>
  An element has a tag, a dict of attributes, a text and a list of children. A new
  \<open>ET.Element(tag)\<close> has no attribute, the text None and no child.
\<close>

datatype Element =
  Element (tag: string) (attrib: "(string \<times> pyval) list") (etext: pyval)
    (children: "Element list")

definition ET_Element :: "string \<Rightarrow> Element" where
  "ET_Element t = Element t [] PyNone []"

text \<open>\<open>e.set(key, value)\<close> stores an attribute.\<close>

definition Element_set :: "Element \<Rightarrow> string \<Rightarrow> pyval \<Rightarrow> Element" where
  "Element_set e key v = Element (tag e) (dict_setitem (attrib e) key v) (etext e) (children e)"

text \<open>\<open>e.text = value\<close>.\<close>

definition Element_set_text :: "Element \<Rightarrow> pyval \<Rightarrow> Element" where
  "Element_set_text e v = Element (tag e) (attrib e) v (children e)"

text \<open>
  \<open>e.insert(index, subelement)\<close> with an index that is not negative: the child goes
  before position index, to the end when index is past the last child.
\<close>

definition Element_insert :: "Element \<Rightarrow> nat \<Rightarrow> Element \<Rightarrow> Element" where
  "Element_insert e index sub =
    Element (tag e) (attrib e) (etext e) (take index (children e) @ sub # drop index (children e))"


section \<open>Entities\<close>

text \<open>
  A class is its name. The classes that \<open>isinstance\<close> tests are the six abstract
  classes of aas.model.
\<close>

type_synonym pyclass = string

definition Referable :: pyclass where "Referable = ''Referable''"
definition Identifiable :: pyclass where "Identifiable = ''Identifiable''"
definition HasDataSpecification :: pyclass where "HasDataSpecification = ''HasDataSpecification''"
definition HasSemantics :: pyclass where "HasSemantics = ''HasSemantics''"
definition HasKind :: pyclass where "HasKind = ''HasKind''"
definition Qualifiable :: pyclass where "Qualifiable = ''Qualifiable''"

text \<open>
  Modelled from the spec: an identification is an id value and an id type, and an
  administration is a version and a revision, each of which may be absent. The classes
  are declared in aas/model/base.py; the function reads the attributes \<open>id\<close>
  (here \<open>id_value\<close>), \<open>id_type\<close>, \<open>version\<close> and \<open>revision\<close>.
\<close>

record Identifier =
  id_value :: string
  id_type :: IdentifierType

record AdministrativeInformation =
  version :: "string option"
  revision :: "string option"

text \<open>
  Modelled from the spec: the attributes of the six capabilities, whose classes are
  declared in aas/model/base.py. An object is the method resolution order of its class
  (\<open>inspect.getmro(type(obj))\<close>, the class itself first) and the attributes that the
  function reads: id_short, category, description (Referable, with the types of
  aas/model/security.py lines 158 to 161); identification, administration
  (Identifiable); data_specification (HasDataSpecification); semantic_id
  (HasSemantics); kind (HasKind); qualifier (Qualifiable). References and constraints
  are opaque: \<open>'ref\<close> and \<open>'con\<close>. An attribute of a capability that the object
  does not have is never read.
\<close>

record ('ref, 'con) entity =
  mro :: "pyclass list"
  id_short :: string
  category :: "string option"
  description :: "(string \<times> string) list option"
  identification :: Identifier
  administration :: "AdministrativeInformation option"
  data_specification :: "'ref set"
  semantic_id :: "'ref option"
  kind :: ModelingKind
  qualifier :: "'con set"

text \<open>
  The truth value that \<open>if x:\<close> takes: None is false, an empty str, dict or set is
  false, any other object is true (a reference and an administration define neither
  \<open>__bool__\<close> nor \<open>__len__\<close>).
\<close>

definition truthy_str :: "string option \<Rightarrow> bool" where
  "truthy_str x = (case x of None \<Rightarrow> False | Some s \<Rightarrow> s \<noteq> [])"

definition truthy_dict :: "('k \<times> 'v) list option \<Rightarrow> bool" where
  "truthy_dict x = (case x of None \<Rightarrow> False | Some d \<Rightarrow> d \<noteq> [])"

definition truthy_object :: "'a option \<Rightarrow> bool" where
  "truthy_object x = (case x of None \<Rightarrow> False | Some _ \<Rightarrow> True)"

definition truthy_set :: "'a set \<Rightarrow> bool" where
  "truthy_set x = (x \<noteq> {})"


section \<open>Computations that read an object and may raise\<close>

text \<open>
  The function receives a reference to a mutable object. A computation takes the
  object that \<open>obj\<close> refers to and gives back a value or an exception, together with
  the object as the computation leaves it.
\<close>

type_synonym ('ref, 'con, 'a) py =
  "('ref, 'con) entity \<Rightarrow> (exn + 'a) \<times> ('ref, 'con) entity"

definition py_return :: "'a \<Rightarrow> ('ref, 'con, 'a) py" where
  "py_return a = (\<lambda>obj. (Inr a, obj))"

definition py_raise :: "exn \<Rightarrow> ('ref, 'con, 'a) py" where
  "py_raise e = (\<lambda>obj. (Inl e, obj))"

definition py_bind ::
  "('ref, 'con, 'a) py \<Rightarrow> ('a \<Rightarrow> ('ref, 'con, 'b) py) \<Rightarrow> ('ref, 'con, 'b) py" where
  "py_bind m f =
    (\<lambda>obj. case m obj of (Inl e, obj') \<Rightarrow> (Inl e, obj') | (Inr a, obj') \<Rightarrow> f a obj')"

text \<open>\<open>obj.attr\<close>: the attribute is read, the object stays as it is.\<close>

definition py_getattr :: "(('ref, 'con) entity \<Rightarrow> 'a) \<Rightarrow> ('ref, 'con, 'a) py" where
  "py_getattr attr = (\<lambda>obj. (Inr (attr obj), obj))"

text \<open>
  \<open>isinstance(obj, c)\<close>: the class is in the method resolution order of the object
  (no class is registered as a virtual subclass of an abstract class).
\<close>

definition isinstance :: "pyclass \<Rightarrow> ('ref, 'con, bool) py" where
  "isinstance c = py_getattr (\<lambda>obj. c \<in> set (mro obj))"

text \<open>
  A call \<open>f(arg)\<close>. The argument is evaluated before the call. No value of
  \<open>pyval\<close> is callable, so the call raises TypeError whatever the argument is.
\<close>

definition py_call :: "pyval \<Rightarrow> 'b \<Rightarrow> ('ref, 'con, pyval) py" where
  "py_call f arg = py_raise (TypeError (quoted (type_name f) @ '' object is not callable''))"


section \<open>The module namespace\<close>

text \<open>
  What a top-level statement of xml_serialization.py does to the names of the module:
  an import binds a name; an annotated assignment evaluates its value, binds its
  target and then evaluates its annotation; a function definition evaluates the
  annotations of its parameters and of its result and binds its name. Each carries the
  names it loads, in the order it loads them: a table loads \<open>model\<close> once for
  each of its keys. Annotations are evaluated when the statement runs, as every Python
  before 3.14 does without \<open>from __future__ import annotations\<close>.
\<close>

datatype stmt =
    Import string
  | AnnAssign string "string list" "string list"
  | FunctionDef string "string list"

text \<open>
  Of the builtins, those that the module refers to. Dict, inspect and submodel are not
  builtins.
\<close>

definition builtins :: "string list" where
  "builtins =
    [''str'', ''object'', ''isinstance'', ''next'', ''iter'', ''type'',
     ''StopIteration'', ''TypeError'']"

definition load_name :: "string list \<Rightarrow> string \<Rightarrow> exn + unit" where
  "load_name names n =
    (if n \<in> set names \<or> n \<in> set builtins then Inr () else Inl (NameError n))"

fun load_names :: "string list \<Rightarrow> string list \<Rightarrow> exn + unit" where
  "load_names names [] = Inr ()"
| "load_names names (n # ns) =
    (case load_name names n of Inl e \<Rightarrow> Inl e | Inr _ \<Rightarrow> load_names names ns)"

fun exec_stmt :: "string list \<Rightarrow> stmt \<Rightarrow> exn + string list" where
  "exec_stmt names (Import n) = Inr (names @ [n])"
| "exec_stmt names (AnnAssign target value_names annotation_names) =
    (case load_names names value_names of
       Inl e \<Rightarrow> Inl e
     | Inr _ \<Rightarrow>
        (case load_names (names @ [target]) annotation_names of
           Inl e \<Rightarrow> Inl e
         | Inr _ \<Rightarrow> Inr (names @ [target])))"
| "exec_stmt names (FunctionDef n annotation_names) =
    (case load_names names annotation_names of
       Inl e \<Rightarrow> Inl e
     | Inr _ \<Rightarrow> Inr (names @ [n]))"

fun exec_stmts :: "string list \<Rightarrow> stmt list \<Rightarrow> exn + string list" where
  "exec_stmts names [] = Inr names"
| "exec_stmts names (s # ss) =
    (case exec_stmt names s of Inl e \<Rightarrow> Inl e | Inr names' \<Rightarrow> exec_stmts names' ss)"

text \<open>The top-level statements of the module, lines 17 to 157.\<close>

definition module_body :: "stmt list" where
  "module_body =
    [Import ''ET'',
     Import ''List'',
     Import ''model'',
     AnnAssign ''MODELING_KIND'' (replicate 2 ''model'') [''Dict'', ''model'', ''str''],
     AnnAssign ''ASSET_KIND'' (replicate 2 ''model'') [''Dict'', ''model'', ''str''],
     AnnAssign ''KEY_ELEMENTS'' (replicate 24 ''model'') [''Dict'', ''model'', ''str''],
     AnnAssign ''KEY_TYPES'' (replicate 5 ''model'') [''Dict'', ''model'', ''str''],
     AnnAssign ''IDENTIFIER_TYPES'' (replicate 3 ''model'') [''Dict'', ''model'', ''str''],
     AnnAssign ''ENTITY_TYPES'' (replicate 2 ''model'') [''Dict'', ''model'', ''str''],
     FunctionDef ''abstract_classes_to_xml'' [''object'', ''List'', ''ET''],
     FunctionDef ''submodel_to_xml'' [''submodel'']]"

text \<open>Importing the module runs its top-level statements from an empty namespace.\<close>

definition import_module :: "exn + string list" where
  "import_module = exec_stmts [] module_body"

text \<open>
  The names that the statements of the module bind: the global names that the body of
  a function of the module can load.
\<close>

fun bound_name :: "stmt \<Rightarrow> string" where
  "bound_name (Import n) = n"
| "bound_name (AnnAssign target _ _) = target"
| "bound_name (FunctionDef n _) = n"

definition module_globals :: "string list" where
  "module_globals = map bound_name module_body"

definition load_global :: "string \<Rightarrow> ('ref, 'con, unit) py" where
  "load_global n =
    (case load_name module_globals n of Inl e \<Rightarrow> py_raise e | Inr u \<Rightarrow> py_return u)"


section \<open>abstract_classes_to_xml\<close>

text \<open>Lines 90 to 92: the idShort element.\<close>

definition referable_id_short ::
  "Element list \<Rightarrow> ('ref, 'con, Element list) py" where
  "referable_id_short elements =
    (let et_id_short = ET_Element ''aas:idShort'' in
     py_bind (py_getattr id_short) (\<lambda>arg.
     py_bind (py_call (etext et_id_short) arg) (\<lambda>_.
     py_return (elements @ [et_id_short]))))"

text \<open>Lines 93 to 96: the category element.\<close>

definition referable_category ::
  "Element list \<Rightarrow> ('ref, 'con, Element list) py" where
  "referable_category elements =
    py_bind (py_getattr category) (\<lambda>c.
    if truthy_str c then
      (let et_category = ET_Element ''aas:category'' in
       py_bind (py_getattr category) (\<lambda>arg.
       py_bind (py_call (etext et_category) arg) (\<lambda>_.
       py_return (elements @ [et_category]))))
    else py_return elements)"

text \<open>Lines 97 to 100: the description element.\<close>

definition referable_description ::
  "Element list \<Rightarrow> ('ref, 'con, Element list) py" where
  "referable_description elements =
    py_bind (py_getattr description) (\<lambda>d.
    if truthy_dict d then
      (let et_description = ET_Element ''description'' in
       py_bind (py_getattr description) (\<lambda>arg.
       py_bind (py_call (etext et_description) arg) (\<lambda>_.
       py_return (elements @ [et_description]))))
    else py_return elements)"

text \<open>
  Lines 101 to 105: the first class of the method resolution order that is a key of
  \<open>model.KEY_ELEMENTS_CLASSES\<close>. The dict is declared in aas/model/base.py and is a
  parameter here, as the list of its keys. The name \<open>inspect\<close> is loaded when the
  generator expression is created, before any class is looked at. When no class is a
  key, \<open>next\<close> raises StopIteration and the handler raises TypeError with the name
  of the class of the object.
\<close>

definition class_name :: "('ref, 'con) entity \<Rightarrow> string" where
  "class_name obj = (case mro obj of [] \<Rightarrow> ''object'' | c # _ \<Rightarrow> c)"

definition resolve_ref_type :: "pyclass list \<Rightarrow> ('ref, 'con, pyclass) py" where
  "resolve_ref_type KEY_ELEMENTS_CLASSES =
    py_bind (load_global ''inspect'') (\<lambda>_.
    py_bind (py_getattr mro) (\<lambda>classes.
    case find (\<lambda>t. t \<in> set KEY_ELEMENTS_CLASSES) classes of
      Some ref_type \<Rightarrow> py_return ref_type
    | None \<Rightarrow>
        py_bind (py_getattr class_name) (\<lambda>n.
        py_raise (TypeError (''Object of type '' @ n @
          '' is Referable but does not inherit from a known AAS type'')))))"

text \<open>Lines 88 to 108: the Referable part.\<close>

definition referable_to_xml ::
  "pyclass list \<Rightarrow> Element list \<Rightarrow> ('ref, 'con, Element list) py" where
  "referable_to_xml KEY_ELEMENTS_CLASSES elements =
    py_bind (isinstance Referable) (\<lambda>b.
    if b then
      py_bind (referable_id_short elements) (\<lambda>elements.
      py_bind (referable_category elements) (\<lambda>elements.
      py_bind (referable_description elements) (\<lambda>elements.
      py_bind (resolve_ref_type KEY_ELEMENTS_CLASSES) (\<lambda>ref_type.
      (let et_model_type =
         Element_set_text (ET_Element ''aas:modelType'') (PyDict [(''name'', PyStr ref_type)])
       in py_return (elements @ [et_model_type]))))))
    else py_return elements)"

text \<open>Lines 111 to 114: the identification element.\<close>

definition identifiable_identification ::
  "Element list \<Rightarrow> ('ref, 'con, Element list) py" where
  "identifiable_identification elements =
    py_bind (py_getattr (\<lambda>obj. id_type (identification obj))) (\<lambda>t.
    (let et_identifiable =
       Element_set (ET_Element ''aas:identification'') ''idType'' (PyIdentifierType t) in
     py_bind (py_getattr (\<lambda>obj. id_value (identification obj))) (\<lambda>arg.
     py_bind (py_call (etext et_identifiable) arg) (\<lambda>_.
     py_return (elements @ [et_identifiable])))))"

text \<open>
  \<open>obj.administration.attr\<close>: the attribute of the administration of the object;
  None has no such attribute.
\<close>

definition AttributeError :: "string \<Rightarrow> string \<Rightarrow> exn" where
  "AttributeError t n =
    Exn ''AttributeError'' (quoted t @ '' object has no attribute '' @ quoted n)"

definition administration_getattr ::
  "(AdministrativeInformation \<Rightarrow> 'a) \<Rightarrow> string \<Rightarrow> ('ref, 'con, 'a) py" where
  "administration_getattr attr n =
    py_bind (py_getattr administration) (\<lambda>a.
    case a of
      None \<Rightarrow> py_raise (AttributeError ''NoneType'' n)
    | Some adm \<Rightarrow> py_return (attr adm))"

text \<open>Lines 115 to 123: the administration element with its two children.\<close>

definition identifiable_administration ::
  "Element list \<Rightarrow> ('ref, 'con, Element list) py" where
  "identifiable_administration elements =
    py_bind (py_getattr administration) (\<lambda>a.
    if truthy_object a then
      (let et_administration = ET_Element ''aas:administration'';
           et_administration_version = ET_Element ''aas:version'' in
       py_bind (administration_getattr version ''version'') (\<lambda>arg.
       py_bind (py_call (etext et_administration_version) arg) (\<lambda>_.
       (let et_administration_revision = ET_Element ''aas:revision'' in
        py_bind (administration_getattr revision ''revision'') (\<lambda>arg.
        py_bind (py_call (etext et_administration_revision) arg) (\<lambda>_.
        (let et_administration = Element_insert et_administration 0 et_administration_version;
             et_administration = Element_insert et_administration 1 et_administration_revision
         in py_return (elements @ [et_administration]))))))))
    else py_return elements)"

text \<open>Lines 110 to 123: the Identifiable part.\<close>

definition identifiable_to_xml ::
  "Element list \<Rightarrow> ('ref, 'con, Element list) py" where
  "identifiable_to_xml elements =
    py_bind (isinstance Identifiable) (\<lambda>b.
    if b then
      py_bind (identifiable_identification elements) (\<lambda>elements.
      identifiable_administration elements)
    else py_return elements)"

text \<open>Lines 125 to 129: the HasDataSpecification part.\<close>

definition has_data_specification_to_xml ::
  "Element list \<Rightarrow> ('ref, 'con, Element list) py" where
  "has_data_specification_to_xml elements =
    py_bind (isinstance HasDataSpecification) (\<lambda>b.
    if b then
      py_bind (py_getattr data_specification) (\<lambda>d.
      if truthy_set d then
        (let et_has_data_specification = ET_Element ''aas:embeddedDataSpecification'' in
         py_bind (py_getattr data_specification) (\<lambda>arg.
         py_bind (py_call (etext et_has_data_specification) arg) (\<lambda>_.
         py_return (elements @ [et_has_data_specification]))))
      else py_return elements)
    else py_return elements)"

text \<open>Lines 131 to 135: the HasSemantics part.\<close>

definition has_semantics_to_xml ::
  "Element list \<Rightarrow> ('ref, 'con, Element list) py" where
  "has_semantics_to_xml elements =
    py_bind (isinstance HasSemantics) (\<lambda>b.
    if b then
      py_bind (py_getattr semantic_id) (\<lambda>s.
      if truthy_object s then
        (let et_semantics = ET_Element ''aas:semanticId'' in
         py_bind (py_getattr semantic_id) (\<lambda>arg.
         py_bind (py_call (etext et_semantics) arg) (\<lambda>_.
         py_return (elements @ [et_semantics]))))
      else py_return elements)
    else py_return elements)"

text \<open>Lines 137 to 141: the HasKind part.\<close>

definition has_kind_to_xml ::
  "Element list \<Rightarrow> ('ref, 'con, Element list) py" where
  "has_kind_to_xml elements =
    py_bind (isinstance HasKind) (\<lambda>b.
    if b then
      py_bind (py_getattr kind) (\<lambda>k.
      if k = ModelingKind_TEMPLATE then
        (let et_modeling_kind = ET_Element ''aas:modelingKind'' in
         py_bind (py_getattr kind) (\<lambda>arg.
         py_bind (py_call (etext et_modeling_kind) arg) (\<lambda>_.
         py_return (elements @ [et_modeling_kind]))))
      else py_return elements)
    else py_return elements)"

text \<open>Lines 143 to 147: the Qualifiable part.\<close>

definition qualifiable_to_xml ::
  "Element list \<Rightarrow> ('ref, 'con, Element list) py" where
  "qualifiable_to_xml elements =
    py_bind (isinstance Qualifiable) (\<lambda>b.
    if b then
      py_bind (py_getattr qualifier) (\<lambda>q.
      if truthy_set q then
        (let et_qualifiers = ET_Element ''aas:qualifier'' in
         py_bind (py_getattr qualifier) (\<lambda>arg.
         py_bind (py_call (etext et_qualifiers) arg) (\<lambda>_.
         py_return (elements @ [et_qualifiers]))))
      else py_return elements)
    else py_return elements)"

text \<open>
  Lines 80 to 149. The result is the list that the function returns, or the exception
  that it raises, and the object as the call leaves it.
\<close>

definition abstract_classes_to_xml ::
  "pyclass list \<Rightarrow> ('ref, 'con, Element list) py" where
  "abstract_classes_to_xml KEY_ELEMENTS_CLASSES =
    (let elements = [] in
     py_bind (referable_to_xml KEY_ELEMENTS_CLASSES elements) (\<lambda>elements.
     py_bind (identifiable_to_xml elements) (\<lambda>elements.
     py_bind (has_data_specification_to_xml elements) (\<lambda>elements.
     py_bind (has_semantics_to_xml elements) (\<lambda>elements.
     py_bind (has_kind_to_xml elements) (\<lambda>elements.
     py_bind (qualifiable_to_xml elements) (\<lambda>elements.
     py_return elements)))))))"


section \<open>Example objects\<close>

text \<open>
  An object of class \<open>object\<close>, which has none of the six capabilities. The other
  examples are built from it. The attributes of a capability that an example does not
  have stand for attributes that do not exist; no computation reads them.
\<close>

definition bare_object :: "(string, string) entity" where
  "bare_object =
    \<lparr>mro = [''object''],
     id_short = [],
     category = None,
     description = None,
     identification = \<lparr>id_value = [], id_type = IdentifierType_CUSTOM\<rparr>,
     administration = None,
     data_specification = {},
     semantic_id = None,
     kind = ModelingKind_INSTANCE,
     qualifier = {}\<rparr>"

text \<open>
  The scenario of the specification: an Asset that is Referable and Identifiable, with
  id_short MyAsset, the IRI https://example.com/asset/1 and no administration.
\<close>

definition example_asset :: "(string, string) entity" where
  "example_asset =
    bare_object
      \<lparr>mro := [''Asset'', ''Identifiable'', ''Referable'', ''object''],
       id_short := ''MyAsset'',
       identification :=
         \<lparr>id_value = ''https://example.com/asset/1'', id_type = IdentifierType_IRI\<rparr>\<rparr>"

text \<open>The same Asset with an administration that has a version and no revision.\<close>

definition example_asset_administration :: "(string, string) entity" where
  "example_asset_administration =
    example_asset\<lparr>administration := Some \<lparr>version = Some ''1'', revision = None\<rparr>\<rparr>"

text \<open>
  An AccessPermissionRule (aas/model/security.py line 118): Referable and Qualifiable,
  with no qualifier.
\<close>

definition example_rule :: "(string, string) entity" where
  "example_rule =
    bare_object
      \<lparr>mro := [''AccessPermissionRule'', ''Referable'', ''Qualifiable'', ''object''],
       id_short := ''rule1''\<rparr>"

text \<open>A Qualifier: an object that has HasSemantics alone, with no semantic_id.\<close>

definition example_qualifier :: "(string, string) entity" where
  "example_qualifier =
    bare_object\<lparr>mro := [''Qualifier'', ''Constraint'', ''HasSemantics'', ''object'']\<rparr>"

text \<open>A Submodel of kind TEMPLATE, with no semantic_id, qualifier or data specification.\<close>

definition example_submodel_template :: "(string, string) entity" where
  "example_submodel_template =
    bare_object
      \<lparr>mro := [''Submodel'', ''Identifiable'', ''Referable'', ''HasSemantics'', ''HasKind'',
         ''Qualifiable'', ''HasDataSpecification'', ''object''],
       id_short := ''MySubmodel'',
       identification :=
         \<lparr>id_value = ''https://example.com/submodel/1'', id_type = IdentifierType_IRI\<rparr>,
       kind := ModelingKind_TEMPLATE\<rparr>"

text \<open>A choice of keys for \<open>model.KEY_ELEMENTS_CLASSES\<close>.\<close>

definition example_KEY_ELEMENTS_CLASSES :: "pyclass list" where
  "example_KEY_ELEMENTS_CLASSES = [''Asset'', ''AssetAdministrationShell'', ''Submodel'']"


text \<open>The exception of a call of the text None of a new element.\<close>

abbreviation not_callable :: exn where
  "not_callable \<equiv> TypeError (quoted ''NoneType'' @ '' object is not callable'')"


section \<open>The token tables\<close>

lemma dict_getitem_total:
  assumes "fst ` set d = UNIV"
  shows "\<exists>v. dict_getitem d k = Inr v"
proof -
  have "k \<in> fst ` set d" using assms by simp
  then have "k \<in> dom (map_of d)" by (simp add: dom_map_of_conv_image_fst)
  then obtain v where "map_of d k = Some v" by blast
  then show ?thesis by (simp add: dict_getitem_def)
qed

lemma dict_unique_token:
  assumes "distinct (map fst d)" and "fst ` set d = UNIV"
  shows "\<exists>!v. (k, v) \<in> set d"
proof -
  have "k \<in> fst ` set d" using assms(2) by simp
  then obtain v where v: "(k, v) \<in> set d" by force
  moreover have "v' = v" if "(k, v') \<in> set d" for v'
    using eq_key_imp_eq_value [OF assms(1) that v] .
  ultimately show ?thesis by blast
qed

lemma dict_getitem_inj:
  assumes "distinct (map snd d)" and "fst ` set d = UNIV"
  shows "inj (dict_getitem d)"
proof (rule injI)
  fix k k'
  assume eq: "dict_getitem d k = dict_getitem d k'"
  have "k \<in> dom (map_of d)" "k' \<in> dom (map_of d)"
    using assms(2) by (simp_all add: dom_map_of_conv_image_fst)
  then obtain v v' where v: "map_of d k = Some v" and v': "map_of d k' = Some v'"
    by blast
  with eq have "v = v'" by (simp add: dict_getitem_def)
  moreover have "(k, v) \<in> set d" "(k', v') \<in> set d"
    using v v' by (auto dest: map_of_SomeD)
  moreover have "inj_on snd (set d)" using assms(1) by (simp add: distinct_map)
  ultimately have "(k, v) = (k', v')" by (intro inj_onD [of snd "set d"]) simp_all
  then show "k = k'" by simp
qed

lemma card_keys:
  assumes "distinct (map fst d)" and "fst ` set d = (UNIV :: 'k set)"
  shows "card (UNIV :: 'k set) = length d"
proof -
  have "card (UNIV :: 'k set) = card (set (map fst d))" using assms(2) by simp
  also have "\<dots> = length (map fst d)" using assms(1) by (rule distinct_card)
  finally show ?thesis by simp
qed

lemma MODELING_KIND_keys: "fst ` set MODELING_KIND = UNIV"
proof -
  have "k \<in> fst ` set MODELING_KIND" for k
    by (cases k) (simp_all add: MODELING_KIND_def)
  then show ?thesis by blast
qed

lemma ASSET_KIND_keys: "fst ` set ASSET_KIND = UNIV"
proof -
  have "k \<in> fst ` set ASSET_KIND" for k
    by (cases k) (simp_all add: ASSET_KIND_def)
  then show ?thesis by blast
qed

lemma KEY_TYPES_keys: "fst ` set KEY_TYPES = UNIV"
proof -
  have "k \<in> fst ` set KEY_TYPES" for k
    by (cases k) (simp_all add: KEY_TYPES_def)
  then show ?thesis by blast
qed

lemma IDENTIFIER_TYPES_keys: "fst ` set IDENTIFIER_TYPES = UNIV"
proof -
  have "k \<in> fst ` set IDENTIFIER_TYPES" for k
    by (cases k) (simp_all add: IDENTIFIER_TYPES_def)
  then show ?thesis by blast
qed

lemma ENTITY_TYPES_keys: "fst ` set ENTITY_TYPES = UNIV"
proof -
  have "k \<in> fst ` set ENTITY_TYPES" for k
    by (cases k) (simp_all add: ENTITY_TYPES_def)
  then show ?thesis by blast
qed

lemma distinct_keys:
  "distinct (map fst MODELING_KIND)" "distinct (map fst ASSET_KIND)"
  "distinct (map fst KEY_ELEMENTS)" "distinct (map fst KEY_TYPES)"
  "distinct (map fst IDENTIFIER_TYPES)" "distinct (map fst ENTITY_TYPES)"
  by (simp_all add: MODELING_KIND_def ASSET_KIND_def KEY_ELEMENTS_def KEY_TYPES_def
      IDENTIFIER_TYPES_def ENTITY_TYPES_def)

lemma distinct_tokens:
  "distinct (map snd MODELING_KIND)" "distinct (map snd ASSET_KIND)"
  "distinct (map snd KEY_ELEMENTS)" "distinct (map snd KEY_TYPES)"
  "distinct (map snd IDENTIFIER_TYPES)" "distinct (map snd ENTITY_TYPES)"
  by (simp_all add: MODELING_KIND_def ASSET_KIND_def KEY_ELEMENTS_def KEY_TYPES_def
      IDENTIFIER_TYPES_def ENTITY_TYPES_def)

lemma table_lengths:
  "length MODELING_KIND = 2" "length ASSET_KIND = 2" "length KEY_ELEMENTS = 24"
  "length KEY_TYPES = 5" "length IDENTIFIER_TYPES = 3" "length ENTITY_TYPES = 2"
  by (simp_all add: MODELING_KIND_def ASSET_KIND_def KEY_ELEMENTS_def KEY_TYPES_def
      IDENTIFIER_TYPES_def ENTITY_TYPES_def)

lemma dict_unique_token_on:
  assumes "distinct (map fst d)" and "k \<in> fst ` set d"
  shows "\<exists>!v. (k, v) \<in> set d"
proof -
  obtain v where v: "(k, v) \<in> set d" using assms(2) by force
  moreover have "v' = v" if "(k, v') \<in> set d" for v'
    using eq_key_imp_eq_value [OF assms(1) that v] .
  ultimately show ?thesis by blast
qed

lemma dict_getitem_inj_on:
  assumes "distinct (map snd d)"
  shows "inj_on (dict_getitem d) (fst ` set d)"
proof (rule inj_onI)
  fix k k'
  assume k: "k \<in> fst ` set d" and k': "k' \<in> fst ` set d"
    and eq: "dict_getitem d k = dict_getitem d k'"
  have "k \<in> dom (map_of d)" "k' \<in> dom (map_of d)"
    using k k' by (simp_all add: dom_map_of_conv_image_fst)
  then obtain v v' where v: "map_of d k = Some v" and v': "map_of d k' = Some v'"
    by blast
  with eq have "v = v'" by (simp add: dict_getitem_def)
  moreover have "(k, v) \<in> set d" "(k', v') \<in> set d"
    using v v' by (auto dest: map_of_SomeD)
  moreover have "inj_on snd (set d)" using assms by (simp add: distinct_map)
  ultimately have "(k, v) = (k', v')" by (intro inj_onD [of snd "set d"]) simp_all
  then show "k = k'" by simp
qed

lemma dict_getitem_keys:
  "(\<exists>v. dict_getitem d k = Inr v) \<longleftrightarrow> k \<in> fst ` set d"
proof
  assume "\<exists>v. dict_getitem d k = Inr v"
  then have "map_of d k \<noteq> None" by (auto simp add: dict_getitem_def split: option.splits)
  then have "k \<in> dom (map_of d)" by blast
  then show "k \<in> fst ` set d" by (simp add: dom_map_of_conv_image_fst)
next
  assume "k \<in> fst ` set d"
  then have "k \<in> dom (map_of d)" by (simp add: dom_map_of_conv_image_fst)
  then obtain v where "map_of d k = Some v" by blast
  then show "\<exists>v. dict_getitem d k = Inr v" by (simp add: dict_getitem_def)
qed

lemma KEY_ELEMENTS_card: "card (fst ` set KEY_ELEMENTS) = 24"
proof -
  have "card (set (map fst KEY_ELEMENTS)) = length (map fst KEY_ELEMENTS)"
    using distinct_keys(3) by (rule distinct_card)
  then show ?thesis by (simp add: table_lengths)
qed

lemma KEY_ELEMENTS_members:
  assumes "fst ` set KEY_ELEMENTS \<subseteq> members" and "finite members"
  shows "24 \<le> card members"
  using card_mono [OF assms(2) assms(1)] by (simp add: KEY_ELEMENTS_card)

lemma KEY_ELEMENTS_total_iff:
  assumes "fst ` set KEY_ELEMENTS \<subseteq> members"
  shows "(\<forall>k\<in>members. \<exists>tok. dict_getitem KEY_ELEMENTS k = Inr tok)
    \<longleftrightarrow> members = fst ` set KEY_ELEMENTS"
  using assms by (auto simp add: dict_getitem_keys)

text \<open>
  C9 (as the claim states it, refuted). The claim gives the enumeration KeyElements
  exactly 22 variants. The keys of the table KEY_ELEMENTS of lines 36 to 60 are 24
  different members of the enumeration, not 22; a declaration of 22 of them, the first
  22 of the table, leaves the keys GLOBAL_REFERENCE and FRAGMENT_REFERENCE without a
  member.
\<close>

theorem KEY_ELEMENTS_not_22:
  "length KEY_ELEMENTS = 24 \<and> distinct (map fst KEY_ELEMENTS)
    \<and> card (fst ` set KEY_ELEMENTS) = 24 \<and> card (fst ` set KEY_ELEMENTS) \<noteq> 22
    \<and> length (take 22 (map fst KEY_ELEMENTS)) = 22
    \<and> ''GLOBAL_REFERENCE'' \<in> fst ` set KEY_ELEMENTS
    \<and> ''GLOBAL_REFERENCE'' \<notin> set (take 22 (map fst KEY_ELEMENTS))"
proof -
  have "''GLOBAL_REFERENCE'' \<in> fst ` set KEY_ELEMENTS"
    by (simp add: KEY_ELEMENTS_def)
  moreover have "''GLOBAL_REFERENCE'' \<notin> set (take 22 (map fst KEY_ELEMENTS))"
    by (simp add: KEY_ELEMENTS_def)
  ultimately show ?thesis
    by (simp add: table_lengths distinct_keys KEY_ELEMENTS_card)
qed

text \<open>
  C9 (amended). Each of the six tables gives each of its keys exactly one token, and the
  lookup in the table is injective on its keys (different keys have different tokens).
  The tables MODELING_KIND, ASSET_KIND, KEY_TYPES, IDENTIFIER_TYPES and ENTITY_TYPES
  have every value of their enumeration as a key, and these enumerations have 2, 2, 5,
  3 and 2 variants. The table KEY_ELEMENTS has 24 different keys, so the enumeration
  KeyElements, which declares all of them, has at least 24 variants; the table has a
  token for every value of KeyElements exactly when the enumeration declares no other
  member than the 24.
\<close>

theorem token_tables:
  "(\<forall>k. \<exists>!tok. (k, tok) \<in> set MODELING_KIND) \<and> inj (dict_getitem MODELING_KIND)
     \<and> card (UNIV :: ModelingKind set) = 2
   \<and> (\<forall>k. \<exists>!tok. (k, tok) \<in> set ASSET_KIND) \<and> inj (dict_getitem ASSET_KIND)
     \<and> card (UNIV :: AssetKind set) = 2
   \<and> (\<forall>k. \<exists>!tok. (k, tok) \<in> set KEY_TYPES) \<and> inj (dict_getitem KEY_TYPES)
     \<and> card (UNIV :: KeyType set) = 5
   \<and> (\<forall>k. \<exists>!tok. (k, tok) \<in> set IDENTIFIER_TYPES) \<and> inj (dict_getitem IDENTIFIER_TYPES)
     \<and> card (UNIV :: IdentifierType set) = 3
   \<and> (\<forall>k. \<exists>!tok. (k, tok) \<in> set ENTITY_TYPES) \<and> inj (dict_getitem ENTITY_TYPES)
     \<and> card (UNIV :: EntityType set) = 2
   \<and> (\<forall>k\<in>fst ` set KEY_ELEMENTS. \<exists>!tok. (k, tok) \<in> set KEY_ELEMENTS)
     \<and> inj_on (dict_getitem KEY_ELEMENTS) (fst ` set KEY_ELEMENTS)
     \<and> card (fst ` set KEY_ELEMENTS) = 24
   \<and> (\<forall>members. fst ` set KEY_ELEMENTS \<subseteq> members \<and> finite members
        \<longrightarrow> 24 \<le> card members)
   \<and> (\<forall>members. fst ` set KEY_ELEMENTS \<subseteq> members \<longrightarrow>
        ((\<forall>k\<in>members. \<exists>tok. dict_getitem KEY_ELEMENTS k = Inr tok)
          \<longleftrightarrow> members = fst ` set KEY_ELEMENTS))"
proof -
  note keys = MODELING_KIND_keys ASSET_KIND_keys KEY_TYPES_keys
    IDENTIFIER_TYPES_keys ENTITY_TYPES_keys
  have "\<forall>k. \<exists>!tok. (k, tok) \<in> set MODELING_KIND" "\<forall>k. \<exists>!tok. (k, tok) \<in> set ASSET_KIND"
    "\<forall>k. \<exists>!tok. (k, tok) \<in> set KEY_TYPES"
    "\<forall>k. \<exists>!tok. (k, tok) \<in> set IDENTIFIER_TYPES" "\<forall>k. \<exists>!tok. (k, tok) \<in> set ENTITY_TYPES"
    using dict_unique_token [OF distinct_keys(1) keys(1)]
      dict_unique_token [OF distinct_keys(2) keys(2)]
      dict_unique_token [OF distinct_keys(4) keys(3)]
      dict_unique_token [OF distinct_keys(5) keys(4)]
      dict_unique_token [OF distinct_keys(6) keys(5)]
    by blast+
  moreover have "inj (dict_getitem MODELING_KIND)" "inj (dict_getitem ASSET_KIND)"
    "inj (dict_getitem KEY_TYPES)"
    "inj (dict_getitem IDENTIFIER_TYPES)" "inj (dict_getitem ENTITY_TYPES)"
    by (rule dict_getitem_inj, rule distinct_tokens, rule keys)+
  moreover have "card (UNIV :: ModelingKind set) = 2" "card (UNIV :: AssetKind set) = 2"
    "card (UNIV :: KeyType set) = 5"
    "card (UNIV :: IdentifierType set) = 3" "card (UNIV :: EntityType set) = 2"
    using card_keys [OF distinct_keys(1) keys(1)] card_keys [OF distinct_keys(2) keys(2)]
      card_keys [OF distinct_keys(4) keys(3)] card_keys [OF distinct_keys(5) keys(4)]
      card_keys [OF distinct_keys(6) keys(5)]
    by (simp_all add: table_lengths)
  moreover have "\<forall>k\<in>fst ` set KEY_ELEMENTS. \<exists>!tok. (k, tok) \<in> set KEY_ELEMENTS"
    using dict_unique_token_on [OF distinct_keys(3)] by blast
  moreover have "inj_on (dict_getitem KEY_ELEMENTS) (fst ` set KEY_ELEMENTS)"
    using distinct_tokens(3) by (rule dict_getitem_inj_on)
  moreover note KEY_ELEMENTS_card
  moreover have "\<forall>members. fst ` set KEY_ELEMENTS \<subseteq> members \<and> finite members
      \<longrightarrow> 24 \<le> card members"
    using KEY_ELEMENTS_members by blast
  moreover have "\<forall>members. fst ` set KEY_ELEMENTS \<subseteq> members \<longrightarrow>
      ((\<forall>k\<in>members. \<exists>tok. dict_getitem KEY_ELEMENTS k = Inr tok)
        \<longleftrightarrow> members = fst ` set KEY_ELEMENTS)"
    using KEY_ELEMENTS_total_iff by blast
  ultimately show ?thesis by blast
qed

text \<open>
  C9 at examples. The key SUBMODEL has the one token Submodel. With the 24 keys as the
  declared members the table has a token for every member. With one more declared
  member, ACCESS_PERMISSION_RULE for the class of aas/model/security.py line 118, the
  enumeration has 25 variants and the table has no token for that member.
\<close>

theorem token_tables_witness:
  "dict_getitem KEY_ELEMENTS ''SUBMODEL'' = Inr ''Submodel''
   \<and> (\<exists>!tok. (''SUBMODEL'', tok) \<in> set KEY_ELEMENTS)
   \<and> 24 \<le> card (fst ` set KEY_ELEMENTS)
   \<and> 24 \<le> card (insert ''ACCESS_PERMISSION_RULE'' (fst ` set KEY_ELEMENTS))
   \<and> card (insert ''ACCESS_PERMISSION_RULE'' (fst ` set KEY_ELEMENTS)) = 25
   \<and> dict_getitem KEY_ELEMENTS ''ACCESS_PERMISSION_RULE'' = Inl KeyError
   \<and> \<not> (\<forall>k\<in>insert ''ACCESS_PERMISSION_RULE'' (fst ` set KEY_ELEMENTS).
          \<exists>tok. dict_getitem KEY_ELEMENTS k = Inr tok)"
proof -
  note t = token_tables
  have new: "''ACCESS_PERMISSION_RULE'' \<notin> fst ` set KEY_ELEMENTS"
    by (simp add: KEY_ELEMENTS_def)
  have sub: "''SUBMODEL'' \<in> fst ` set KEY_ELEMENTS"
    by (simp add: KEY_ELEMENTS_def)
  have fin: "finite (fst ` set KEY_ELEMENTS)" by simp
  from t have unique: "\<forall>k\<in>fst ` set KEY_ELEMENTS. \<exists>!tok. (k, tok) \<in> set KEY_ELEMENTS"
    by - (elim conjE, assumption)
  from t have least: "\<forall>members. fst ` set KEY_ELEMENTS \<subseteq> members \<and> finite members
      \<longrightarrow> 24 \<le> card members"
    by - (elim conjE, assumption)
  from t have total: "\<forall>members. fst ` set KEY_ELEMENTS \<subseteq> members \<longrightarrow>
      ((\<forall>k\<in>members. \<exists>tok. dict_getitem KEY_ELEMENTS k = Inr tok)
        \<longleftrightarrow> members = fst ` set KEY_ELEMENTS)"
    by - (elim conjE, assumption)
  from t have c: "card (fst ` set KEY_ELEMENTS) = 24" by - (elim conjE, assumption)
  have "dict_getitem KEY_ELEMENTS ''SUBMODEL'' = Inr ''Submodel''"
    by (simp add: dict_getitem_def KEY_ELEMENTS_def)
  moreover have "\<exists>!tok. (''SUBMODEL'', tok) \<in> set KEY_ELEMENTS"
    using unique sub by blast
  moreover have "24 \<le> card (fst ` set KEY_ELEMENTS)"
    using least fin by blast
  moreover have "24 \<le> card (insert ''ACCESS_PERMISSION_RULE'' (fst ` set KEY_ELEMENTS))"
  proof -
    have "fst ` set KEY_ELEMENTS \<subseteq> insert ''ACCESS_PERMISSION_RULE'' (fst ` set KEY_ELEMENTS)
        \<and> finite (insert ''ACCESS_PERMISSION_RULE'' (fst ` set KEY_ELEMENTS))"
      by auto
    with least show ?thesis by blast
  qed
  moreover have "card (insert ''ACCESS_PERMISSION_RULE'' (fst ` set KEY_ELEMENTS)) = 25"
    using new c by (simp add: card_insert_disjoint [OF fin])
  moreover have "dict_getitem KEY_ELEMENTS ''ACCESS_PERMISSION_RULE'' = Inl KeyError"
    by (simp add: dict_getitem_def KEY_ELEMENTS_def)
  moreover have "\<not> (\<forall>k\<in>insert ''ACCESS_PERMISSION_RULE'' (fst ` set KEY_ELEMENTS).
      \<exists>tok. dict_getitem KEY_ELEMENTS k = Inr tok)"
  proof -
    have "fst ` set KEY_ELEMENTS \<subseteq> insert ''ACCESS_PERMISSION_RULE'' (fst ` set KEY_ELEMENTS)"
      by (rule subset_insertI)
    from total [rule_format, OF this]
    have "(\<forall>k\<in>insert ''ACCESS_PERMISSION_RULE'' (fst ` set KEY_ELEMENTS).
        \<exists>tok. dict_getitem KEY_ELEMENTS k = Inr tok)
      \<longleftrightarrow> insert ''ACCESS_PERMISSION_RULE'' (fst ` set KEY_ELEMENTS) = fst ` set KEY_ELEMENTS" .
    moreover have "insert ''ACCESS_PERMISSION_RULE'' (fst ` set KEY_ELEMENTS)
        \<noteq> fst ` set KEY_ELEMENTS"
      using new by blast
    ultimately show ?thesis by simp
  qed
  ultimately show ?thesis by blast
qed


section \<open>What each part of the function does\<close>

lemmas py_defs = py_return_def py_raise_def py_bind_def py_getattr_def isinstance_def
  py_call_def

lemmas capability_defs = Referable_def Identifiable_def HasDataSpecification_def
  HasSemantics_def HasKind_def Qualifiable_def

lemmas example_defs = bare_object_def example_asset_def example_asset_administration_def
  example_rule_def example_qualifier_def example_submodel_template_def
  example_KEY_ELEMENTS_CLASSES_def

lemma import_module_run: "import_module = Inl (NameError ''Dict'')"
  by (simp add: import_module_def module_body_def load_name_def builtins_def
      eval_nat_numeral)

lemma referable_id_short_run:
  "referable_id_short elements obj = (Inl not_callable, obj)"
  by (simp add: referable_id_short_def py_defs ET_Element_def type_name_def)

lemma referable_category_run:
  "referable_category elements obj =
    (if truthy_str (category obj) then (Inl not_callable, obj) else (Inr elements, obj))"
  by (simp add: referable_category_def py_defs ET_Element_def type_name_def)

lemma referable_description_run:
  "referable_description elements obj =
    (if truthy_dict (description obj) then (Inl not_callable, obj) else (Inr elements, obj))"
  by (simp add: referable_description_def py_defs ET_Element_def type_name_def)

lemma resolve_ref_type_run:
  "resolve_ref_type K obj = (Inl (NameError ''inspect''), obj)"
  by (simp add: resolve_ref_type_def py_defs load_global_def load_name_def module_globals_def
      module_body_def builtins_def)

lemma referable_to_xml_run:
  "referable_to_xml K elements obj =
    (if Referable \<in> set (mro obj) then (Inl not_callable, obj) else (Inr elements, obj))"
  by (simp add: referable_to_xml_def referable_id_short_run py_defs)

lemma identifiable_identification_run:
  "identifiable_identification elements obj = (Inl not_callable, obj)"
  by (simp add: identifiable_identification_def py_defs ET_Element_def Element_set_def
      type_name_def)

lemma identifiable_administration_run:
  "identifiable_administration elements obj =
    (if truthy_object (administration obj) then (Inl not_callable, obj)
     else (Inr elements, obj))"
  by (simp add: identifiable_administration_def administration_getattr_def py_defs
      ET_Element_def type_name_def truthy_object_def split: option.splits)

lemma identifiable_to_xml_run:
  "identifiable_to_xml elements obj =
    (if Identifiable \<in> set (mro obj) then (Inl not_callable, obj) else (Inr elements, obj))"
  by (simp add: identifiable_to_xml_def identifiable_identification_run py_defs)

lemma has_data_specification_to_xml_run:
  "has_data_specification_to_xml elements obj =
    (if HasDataSpecification \<in> set (mro obj) \<and> truthy_set (data_specification obj)
     then (Inl not_callable, obj) else (Inr elements, obj))"
  by (simp add: has_data_specification_to_xml_def py_defs ET_Element_def type_name_def)

lemma has_semantics_to_xml_run:
  "has_semantics_to_xml elements obj =
    (if HasSemantics \<in> set (mro obj) \<and> truthy_object (semantic_id obj)
     then (Inl not_callable, obj) else (Inr elements, obj))"
  by (simp add: has_semantics_to_xml_def py_defs ET_Element_def type_name_def)

lemma has_kind_to_xml_run:
  "has_kind_to_xml elements obj =
    (if HasKind \<in> set (mro obj) \<and> kind obj = ModelingKind_TEMPLATE
     then (Inl not_callable, obj) else (Inr elements, obj))"
  by (simp add: has_kind_to_xml_def py_defs ET_Element_def type_name_def)

lemma qualifiable_to_xml_run:
  "qualifiable_to_xml elements obj =
    (if Qualifiable \<in> set (mro obj) \<and> truthy_set (qualifier obj)
     then (Inl not_callable, obj) else (Inr elements, obj))"
  by (simp add: qualifiable_to_xml_def py_defs ET_Element_def type_name_def)

lemma abstract_classes_to_xml_run:
  "abstract_classes_to_xml K obj =
    (if Referable \<in> set (mro obj) \<or> Identifiable \<in> set (mro obj)
        \<or> HasDataSpecification \<in> set (mro obj) \<and> truthy_set (data_specification obj)
        \<or> HasSemantics \<in> set (mro obj) \<and> truthy_object (semantic_id obj)
        \<or> HasKind \<in> set (mro obj) \<and> kind obj = ModelingKind_TEMPLATE
        \<or> Qualifiable \<in> set (mro obj) \<and> truthy_set (qualifier obj)
     then (Inl not_callable, obj) else (Inr [], obj))"
  by (simp add: abstract_classes_to_xml_def referable_to_xml_run identifiable_to_xml_run
      has_data_specification_to_xml_run has_semantics_to_xml_run has_kind_to_xml_run
      qualifiable_to_xml_run py_bind_def py_return_def)


section \<open>The claims about abstract_classes_to_xml\<close>

text \<open>
  C1. The claim: for every entity the function returns the fragments of the
  capabilities that the entity has, in the order Referable, Identifiable,
  HasDataSpecification, HasSemantics, HasKind, Qualifiable. The code does not do so. On
  the Asset of the specification's scenario, whose class is a key of
  KEY_ELEMENTS_CLASSES, the call returns no list: line 91 calls the text of the new
  idShort element, which is None, and the call raises TypeError.
\<close>

theorem abstract_classes_to_xml_example_asset:
  "abstract_classes_to_xml example_KEY_ELEMENTS_CLASSES example_asset
    = (Inl not_callable, example_asset)
   \<and> find (\<lambda>t. t \<in> set example_KEY_ELEMENTS_CLASSES) (mro example_asset) = Some ''Asset''"
  by (simp add: abstract_classes_to_xml_run example_defs capability_defs)

text \<open>
  C2 (as the claim states it, refuted). The claim: the function raises for every
  entity that has at least one of the six capabilities. A Qualifier with no semantic_id
  has the capability HasSemantics, and the function returns the empty list for it.
\<close>

theorem abstract_classes_to_xml_example_qualifier:
  "HasSemantics \<in> set (mro example_qualifier)
   \<and> abstract_classes_to_xml example_KEY_ELEMENTS_CLASSES example_qualifier
      = (Inr [], example_qualifier)"
  by (simp add: abstract_classes_to_xml_run example_defs capability_defs truthy_set_def
      truthy_object_def)

text \<open>
  C2 (amended). The function raises TypeError, for the call of the text None of a new
  element, exactly when the object reaches such a call: when it is Referable, or
  Identifiable, or has HasDataSpecification and a data specification that is not empty,
  or has HasSemantics and a semantic_id, or has HasKind and the kind TEMPLATE, or is
  Qualifiable with a qualifier that is not empty. For every other object it returns the
  empty list. The lookup of the type in the Referable part raises NameError for the
  name inspect, and importing the module raises NameError for the name Dict.
\<close>

theorem abstract_classes_to_xml_outcome:
  "abstract_classes_to_xml K obj =
    (if Referable \<in> set (mro obj) \<or> Identifiable \<in> set (mro obj)
        \<or> HasDataSpecification \<in> set (mro obj) \<and> data_specification obj \<noteq> {}
        \<or> HasSemantics \<in> set (mro obj) \<and> semantic_id obj \<noteq> None
        \<or> HasKind \<in> set (mro obj) \<and> kind obj = ModelingKind_TEMPLATE
        \<or> Qualifiable \<in> set (mro obj) \<and> qualifier obj \<noteq> {}
     then (Inl not_callable, obj) else (Inr [], obj))
   \<and> resolve_ref_type K obj = (Inl (NameError ''inspect''), obj)
   \<and> import_module = Inl (NameError ''Dict'')"
  by (simp add: abstract_classes_to_xml_run resolve_ref_type_run import_module_run
      truthy_set_def truthy_object_def split: option.splits)



text \<open>
  C4. The claim: a Referable entity whose class matches no registered type fails with
  the error of the type lookup. An AccessPermissionRule is Referable and no class of
  its method resolution order is a key of KEY_ELEMENTS_CLASSES. The call raises the
  TypeError of line 91, for the call of the text None, before the lookup; and the
  lookup of lines 101 to 105 itself raises NameError for the name inspect, not the
  TypeError of line 104.
\<close>

theorem unresolved_type_example_rule:
  "find (\<lambda>t. t \<in> set example_KEY_ELEMENTS_CLASSES) (mro example_rule) = None
   \<and> abstract_classes_to_xml example_KEY_ELEMENTS_CLASSES example_rule
      = (Inl not_callable, example_rule)
   \<and> resolve_ref_type example_KEY_ELEMENTS_CLASSES example_rule
      = (Inl (NameError ''inspect''), example_rule)"
  by (simp add: abstract_classes_to_xml_run resolve_ref_type_run example_defs capability_defs)

text \<open>
  C5. The claim: an entity of kind Template gives one modelingKind fragment with the
  token Template. For a Submodel of kind TEMPLATE the HasKind part, from any list of
  elements, raises the TypeError of line 140 and adds no fragment, and so does the call.
\<close>

theorem has_kind_example_submodel_template:
  "has_kind_to_xml elements example_submodel_template
      = (Inl not_callable, example_submodel_template)
   \<and> abstract_classes_to_xml K example_submodel_template
      = (Inl not_callable, example_submodel_template)"
  by (simp add: abstract_classes_to_xml_run has_kind_to_xml_run example_defs capability_defs)

text \<open>
  C6. An optional attribute that is empty or absent adds no fragment: the part of the
  function for category, description, administration, data specification, semantic_id
  and qualifier returns the list of elements that it was given when its attribute is
  None or empty. An object that is neither Referable nor Identifiable nor HasKind, with
  no data specification, no semantic_id and no qualifier, gets the empty list.
\<close>

theorem optional_attributes_omitted:
  "(category obj = None \<or> category obj = Some [] \<longrightarrow>
      referable_category elements obj = (Inr elements, obj))
   \<and> (description obj = None \<or> description obj = Some [] \<longrightarrow>
      referable_description elements obj = (Inr elements, obj))
   \<and> (administration obj = None \<longrightarrow>
      identifiable_administration elements obj = (Inr elements, obj))
   \<and> (data_specification obj = {} \<longrightarrow>
      has_data_specification_to_xml elements obj = (Inr elements, obj))
   \<and> (semantic_id obj = None \<longrightarrow>
      has_semantics_to_xml elements obj = (Inr elements, obj))
   \<and> (qualifier obj = {} \<longrightarrow>
      qualifiable_to_xml elements obj = (Inr elements, obj))
   \<and> (Referable \<notin> set (mro obj) \<and> Identifiable \<notin> set (mro obj)
        \<and> HasKind \<notin> set (mro obj) \<and> data_specification obj = {}
        \<and> semantic_id obj = None \<and> qualifier obj = {} \<longrightarrow>
      abstract_classes_to_xml K obj = (Inr [], obj))"
  by (auto simp add: abstract_classes_to_xml_run referable_category_run
      referable_description_run identifiable_administration_run
      has_data_specification_to_xml_run has_semantics_to_xml_run qualifiable_to_xml_run
      truthy_str_def truthy_dict_def truthy_object_def truthy_set_def)

text \<open>
  C6 at the examples: the AccessPermissionRule has no category, description, data
  specification or qualifier, the Asset has no administration, and the Qualifier has
  no semantic_id.
\<close>

theorem optional_attributes_omitted_witness:
  "referable_category [ET_Element ''x''] example_rule = (Inr [ET_Element ''x''], example_rule)
   \<and> referable_description [ET_Element ''x''] example_rule
      = (Inr [ET_Element ''x''], example_rule)
   \<and> identifiable_administration [ET_Element ''x''] example_asset
      = (Inr [ET_Element ''x''], example_asset)
   \<and> has_data_specification_to_xml [ET_Element ''x''] example_rule
      = (Inr [ET_Element ''x''], example_rule)
   \<and> has_semantics_to_xml [ET_Element ''x''] example_qualifier
      = (Inr [ET_Element ''x''], example_qualifier)
   \<and> qualifiable_to_xml [ET_Element ''x''] example_rule
      = (Inr [ET_Element ''x''], example_rule)
   \<and> abstract_classes_to_xml example_KEY_ELEMENTS_CLASSES example_qualifier
      = (Inr [], example_qualifier)"
  using optional_attributes_omitted [of example_rule "[ET_Element ''x'']"]
    optional_attributes_omitted [of example_asset "[ET_Element ''x'']"]
    optional_attributes_omitted
      [of example_qualifier "[ET_Element ''x'']" example_KEY_ELEMENTS_CLASSES]
  by (simp add: example_defs capability_defs)

text \<open>
  C7. The claim: an administration gives a fragment with the version child before the
  revision child. For the Asset with an administration the administration part, from
  any list of elements, raises the TypeError of line 118 and adds no fragment, and the
  call raises.
\<close>

theorem administration_example_asset:
  "identifiable_administration elements example_asset_administration
      = (Inl not_callable, example_asset_administration)
   \<and> abstract_classes_to_xml K example_asset_administration
      = (Inl not_callable, example_asset_administration)"
  by (simp add: abstract_classes_to_xml_run identifiable_administration_run example_defs
      capability_defs truthy_object_def)

text \<open>
  C8. The claim: an Identifiable entity gives an identification fragment with the token
  of its id type as attribute and its id as content. For the Asset the identification
  part, from any list of elements, raises the TypeError of line 113 and adds no
  fragment, and so does the Identifiable part.
\<close>

theorem identification_example_asset:
  "identifiable_identification elements example_asset = (Inl not_callable, example_asset)
   \<and> identifiable_to_xml elements example_asset = (Inl not_callable, example_asset)"
  by (simp add: identifiable_identification_run identifiable_to_xml_run example_defs
      capability_defs)

text \<open>
  C10. No part of the function changes the object that it reads: each of the six parts,
  and the call, leaves the object as it found it, whether it returns or raises. A
  second call, on the object as the first call left it, gives the same outcome as the
  first.
\<close>

theorem abstract_classes_to_xml_reads_only:
  "snd (referable_to_xml K elements obj) = obj
   \<and> snd (identifiable_to_xml elements obj) = obj
   \<and> snd (has_data_specification_to_xml elements obj) = obj
   \<and> snd (has_semantics_to_xml elements obj) = obj
   \<and> snd (has_kind_to_xml elements obj) = obj
   \<and> snd (qualifiable_to_xml elements obj) = obj
   \<and> snd (abstract_classes_to_xml K obj) = obj
   \<and> abstract_classes_to_xml K (snd (abstract_classes_to_xml K obj))
      = abstract_classes_to_xml K obj"
  by (simp add: abstract_classes_to_xml_run referable_to_xml_run identifiable_to_xml_run
      has_data_specification_to_xml_run has_semantics_to_xml_run has_kind_to_xml_run
      qualifiable_to_xml_run)

end
